theory Spec2Isabelle
  imports Main
begin

section \<open>The image router: routers/image\_downloader.py\<close>

text \<open>
  The module defines four request handlers over a process-wide \<open>ImageDownloader\<close>:
  \<open>start_download\<close> (POST /start), \<open>get_status\<close> (GET /status), \<open>clear_images\<close>
  (POST /clear) and \<open>get_local_image\<close> (GET /local/{image_type}/{file_hash}).

  Modelling decisions.
  \<^item> A Python \<open>str\<close> is a \<open>string\<close>; one \<open>char\<close> stands for one character of the
    \<open>str\<close>, so \<open>file_hash[:2]\<close> is \<open>take 2 file_hash\<close>.
  \<^item> The fixed message texts of the source are Chinese; each f-string template is one
    constructor of \<open>message\<close> or \<open>detail\<close> that carries the interpolated value.
  \<^item> A raised exception is a value of \<open>exn\<close>; a handler that can raise returns
    \<open>exn + 'a\<close> with \<open>Inl\<close> the exception. Only instances of Python's class
    \<open>Exception\<close> are modelled (the class both \<open>except\<close> clauses name).
  \<^item> \<open>get_output_path\<close> (scripts/utils.py) and the file system behind
    \<open>os.path.exists\<close> are parameters, collected in the record \<open>env\<close>; every call
    to them is appended to an event log, in program order.
  \<^item> \<open>os.path.join\<close> is the two-argument case of CPython's \<open>posixpath.join\<close>.
  \<^item> Console output (\<open>print\<close>) is not modelled, and neither is \<open>get_status\<close>,
    which only wraps the result of \<open>downloader.get_download_stats()\<close>.
\<close>

subsection \<open>Exceptions and responses\<close>

datatype detail =
    Invalid_image_type string
  | Image_not_found string
  | Get_image_failed string

datatype exn =
    HTTPException nat detail
  | Exception string

datatype response = FileResponse string string

datatype message =
    Start_all_years
  | Start_year int
  | Cleared_all
  | Clear_failed
  | Clear_error exn

datatype pyval =
    Str string
  | Text message
  | List "pyval list"
  | Dict "(string \<times> pyval) list"

type_synonym pydict = "(string \<times> pyval) list"

subsection \<open>POST /start\<close>

text \<open>
  \<open>BackgroundTasks.add_task(func, *args)\<close> appends the pair of the callable and its
  argument to the task list of the request; nothing is called. The callable is the method
  \<open>downloader.start_download\<close> of scripts/image\_downloader.py, a parameter here: whatever
  it does when the framework runs it later is its result type \<open>'r\<close>.
\<close>

datatype 'r task = Task "int option \<Rightarrow> 'r" "int option"

definition add_task :: "'r task list \<Rightarrow> (int option \<Rightarrow> 'r) \<Rightarrow> int option \<Rightarrow> 'r task list" where
  "add_task tasks func arg = tasks @ [Task func arg]"

definition start_download ::
    "(int option \<Rightarrow> 'r) \<Rightarrow> 'r task list \<Rightarrow> int option \<Rightarrow> pydict \<times> 'r task list" where
  "start_download downloader_start_download background_tasks year =
     ([(''status'', Str ''success''),
       (''message'', Text (case year of None \<Rightarrow> Start_all_years | Some y \<Rightarrow> Start_year y))],
      add_task background_tasks downloader_start_download year)"

subsection \<open>POST /clear\<close>

text \<open>
  The argument is what the call \<open>downloader.clear_all_images()\<close> does: it returns a
  truth value (\<open>Inr\<close>) or raises (\<open>Inl\<close>).
\<close>

definition clear_images :: "exn + bool \<Rightarrow> exn + pydict" where
  "clear_images clear_all_images_outcome =
     (case clear_all_images_outcome of
        Inr success \<Rightarrow>
          (if success then
             Inr [(''status'', Str ''success''),
                  (''message'', Text Cleared_all),
                  (''data'', Dict
                     [(''cleared_paths'', List
                         [Str ''output/images/covers'',
                          Str ''output/images/avatars'',
                          Str ''output/images/orphaned_covers'',
                          Str ''output/images/orphaned_avatars'']),
                      (''status_file'', Str ''output/download_status.json'')])]
           else
             Inr [(''status'', Str ''error''),
                  (''message'', Text Clear_failed)])
      | Inl e \<Rightarrow>
          Inr [(''status'', Str ''error''),
               (''message'', Text (Clear_error e))])"

text \<open>
  Modelled from the spec: \<open>clear_all_images\<close> of scripts/image\_downloader.py, which is not
  part of the sources at hand. The spec (4.4): it deletes the files of every known
  category and resets the ledger; it "fails (returns false, logs cause) if any deletion
  step errors, but continues attempting remaining steps rather than aborting at the first
  error". A run is the list of its deletion steps, each a target with whether the step
  went through; every step is attempted.
\<close>

fun clear_all_images :: "(string \<times> bool) list \<Rightarrow> bool" where
  "clear_all_images [] = True"
| "clear_all_images ((target, deleted) # steps) = (clear_all_images steps \<and> deleted)"

subsection \<open>GET /local/{image\_type}/{file\_hash}\<close>

definition os_path_join :: "string \<Rightarrow> string \<Rightarrow> string" where
  "os_path_join a b =
     (if b \<noteq> [] \<and> hd b = CHR ''/'' then b
      else if a = [] \<or> last a = CHR ''/'' then a @ b
      else a @ ''/'' @ b)"

datatype event = Get_output_path string | Os_path_exists string

record env =
  get_output_path :: "string \<Rightarrow> exn + string"
  os_path_exists :: "string \<Rightarrow> bool"

definition extensions :: "string list" where
  "extensions = [''.jpg'', ''.jpeg'', ''.png'', ''.webp'', ''.gif'']"

definition media_type :: "string \<Rightarrow> string" where
  "media_type ext = (if ext \<noteq> ''.jpg'' then ''image/'' @ drop 1 ext else ''image/jpeg'')"

fun probe :: "env \<Rightarrow> string \<Rightarrow> string \<Rightarrow> string list \<Rightarrow> event list
    \<Rightarrow> response option \<times> event list" where
  "probe e img_dir file_hash [] log = (None, log)"
| "probe e img_dir file_hash (ext # exts) log =
     (let img_path = os_path_join img_dir (file_hash @ ext);
          log' = log @ [Os_path_exists img_path]
      in if os_path_exists e img_path
         then (Some (FileResponse img_path (media_type ext)), log')
         else probe e img_dir file_hash exts log')"

definition except_handler :: "exn \<Rightarrow> exn" where
  "except_handler e =
     (case e of
        HTTPException code d \<Rightarrow> e
      | Exception s \<Rightarrow> HTTPException 500 (Get_image_failed s))"

definition get_local_image :: "env \<Rightarrow> string \<Rightarrow> string \<Rightarrow> (exn + response) \<times> event list" where
  "get_local_image e image_type file_hash =
     (if image_type \<notin> set [''covers'', ''avatars'']
      then (Inl (HTTPException 400 (Invalid_image_type image_type)), [])
      else
        (case get_output_path e ''images'' of
           Inl ex \<Rightarrow> (Inl (except_handler ex), [Get_output_path ''images''])
         | Inr base_path \<Rightarrow>
             (let type_path = os_path_join base_path image_type;
                  sub_dir = take 2 file_hash;
                  img_dir = os_path_join type_path sub_dir;
                  log = [Get_output_path ''images'', Os_path_exists img_dir]
              in if \<not> os_path_exists e img_dir
                 then (Inl (except_handler (HTTPException 404 (Image_not_found file_hash))), log)
                 else
                   (case probe e img_dir file_hash extensions log of
                      (Some r, log') \<Rightarrow> (Inr r, log')
                    | (None, log') \<Rightarrow>
                        (Inl (except_handler (HTTPException 404 (Image_not_found file_hash))),
                         log')))))"

subsection \<open>The paths of a lookup\<close>

text \<open>
  The two paths that \<open>get_local_image\<close> builds, as functions of the base path that
  \<open>get_output_path\<close> returned.
\<close>

definition img_dir :: "string \<Rightarrow> string \<Rightarrow> string \<Rightarrow> string" where
  "img_dir base_path image_type file_hash =
     os_path_join (os_path_join base_path image_type) (take 2 file_hash)"

definition img_path :: "string \<Rightarrow> string \<Rightarrow> string \<Rightarrow> string \<Rightarrow> string" where
  "img_path base_path image_type file_hash ext =
     os_path_join (img_dir base_path image_type file_hash) (file_hash @ ext)"

text \<open>
  The layout rule in the words of the spec (HashStore): the path
  \<open><type>/<hash[0:2]>/<hash>.<ext>\<close>, relative to the images base. An extension carries
  its dot, as in the list the handler iterates over.
\<close>

definition layout_dir :: "string \<Rightarrow> string \<Rightarrow> string" where
  "layout_dir category h = category @ ''/'' @ take 2 h"

definition layout_file :: "string \<Rightarrow> string \<Rightarrow> string \<Rightarrow> string" where
  "layout_file category h ext = category @ ''/'' @ take 2 h @ ''/'' @ h @ ext"

text \<open>
  The content type in the words of the spec: \<open>.jpg\<close> and \<open>.jpeg\<close> give
  \<open>image/jpeg\<close>, any other extension gives \<open>image/<ext>\<close>.
\<close>

definition spec_content_type :: "string \<Rightarrow> string" where
  "spec_content_type ext =
     (if ext = ''.jpg'' \<or> ext = ''.jpeg'' then ''image/jpeg'' else ''image/'' @ drop 1 ext)"

text \<open>
  The extensions a loop over \<open>exts\<close> tries before it stops: all up to and including the
  first one found, or all of them when none is found.
\<close>

definition tried :: "(string \<Rightarrow> bool) \<Rightarrow> string list \<Rightarrow> string list" where
  "tried found exts = take (Suc (length (takeWhile (\<lambda>ext. \<not> found ext) exts))) exts"

text \<open>
  An environment for examples: \<open>get_output_path\<close> has the given outcome, and exactly the
  listed paths exist.
\<close>

definition env_of :: "exn + string \<Rightarrow> string list \<Rightarrow> env" where
  "env_of base paths =
     \<lparr>get_output_path = (\<lambda>_. base), os_path_exists = (\<lambda>p. p \<in> set paths)\<rparr>"

section \<open>Properties\<close>

subsection \<open>The probing loop and the lookup as a whole\<close>

lemma probe_fst:
  "fst (probe e d h exts log) =
     map_option (\<lambda>ext. FileResponse (os_path_join d (h @ ext)) (media_type ext))
       (find (\<lambda>ext. os_path_exists e (os_path_join d (h @ ext))) exts)"
  by (induction exts arbitrary: log) (simp_all add: Let_def)

lemma probe_snd:
  "snd (probe e d h exts log) =
     log @ map (\<lambda>ext. Os_path_exists (os_path_join d (h @ ext)))
       (tried (\<lambda>ext. os_path_exists e (os_path_join d (h @ ext))) exts)"
  by (induction exts arbitrary: log) (simp_all add: Let_def tried_def)

text \<open>
  With a valid category and a base path, the handler is a directory test followed by a
  search for the first extension whose file exists.
\<close>

lemma get_local_image_lookup:
  assumes cat: "image_type = ''covers'' \<or> image_type = ''avatars''"
    and base: "get_output_path e ''images'' = Inr base_path"
  shows "get_local_image e image_type file_hash =
     (if \<not> os_path_exists e (img_dir base_path image_type file_hash)
      then (Inl (HTTPException 404 (Image_not_found file_hash)),
            [Get_output_path ''images'', Os_path_exists (img_dir base_path image_type file_hash)])
      else
        (case find (\<lambda>ext. os_path_exists e (img_path base_path image_type file_hash ext)) extensions of
           None \<Rightarrow> Inl (HTTPException 404 (Image_not_found file_hash))
         | Some ext \<Rightarrow> Inr (FileResponse (img_path base_path image_type file_hash ext) (media_type ext)),
         [Get_output_path ''images'', Os_path_exists (img_dir base_path image_type file_hash)] @
         map (\<lambda>ext. Os_path_exists (img_path base_path image_type file_hash ext))
           (tried (\<lambda>ext. os_path_exists e (img_path base_path image_type file_hash ext)) extensions)))"
proof -
  let ?d = "img_dir base_path image_type file_hash"
  let ?log = "[Get_output_path ''images'', Os_path_exists ?d]"
  obtain r log' where p: "probe e ?d file_hash extensions ?log = (r, log')"
    by (cases "probe e ?d file_hash extensions ?log")
  have r: "r = map_option (\<lambda>ext. FileResponse (os_path_join ?d (file_hash @ ext)) (media_type ext))
       (find (\<lambda>ext. os_path_exists e (os_path_join ?d (file_hash @ ext))) extensions)"
    using probe_fst [of e ?d file_hash extensions ?log] p by simp
  have l: "log' = ?log @ map (\<lambda>ext. Os_path_exists (os_path_join ?d (file_hash @ ext)))
       (tried (\<lambda>ext. os_path_exists e (os_path_join ?d (file_hash @ ext))) extensions)"
    using probe_snd [of e ?d file_hash extensions ?log] p by simp
  have "image_type \<in> set [''covers'', ''avatars'']"
    using cat by auto
  then have "get_local_image e image_type file_hash =
      (if \<not> os_path_exists e ?d
       then (Inl (HTTPException 404 (Image_not_found file_hash)), ?log)
       else (case r of Some x \<Rightarrow> Inr x
             | None \<Rightarrow> Inl (HTTPException 404 (Image_not_found file_hash)), log'))"
    using base p
    by (simp add: get_local_image_def img_dir_def Let_def except_handler_def
        split: option.split del: set_simps)
  then show ?thesis
    unfolding r l img_path_def
    by (simp split: option.split)
qed

subsection \<open>Joining paths\<close>

lemma os_path_join_ends:
  "\<exists>dir. os_path_join a b = dir @ b"
proof (cases "b \<noteq> [] \<and> hd b = CHR ''/''")
  case True
  then have "os_path_join a b = [] @ b"
    by (simp add: os_path_join_def)
  then show ?thesis by blast
next
  case False
  then have "os_path_join a b = a @ b \<or> os_path_join a b = (a @ ''/'') @ b"
    by (auto simp: os_path_join_def)
  then show ?thesis by blast
qed

lemma os_path_join_nested:
  assumes "b \<noteq> []" and "hd b \<noteq> CHR ''/''" and "last b \<noteq> CHR ''/''"
    and "c \<noteq> []" and "hd c \<noteq> CHR ''/''"
  shows "os_path_join (os_path_join a b) c = os_path_join a (b @ ''/'' @ c)"
  using assms by (simp add: os_path_join_def)

lemma hash_segment:
  assumes "file_hash \<noteq> []" and "CHR ''/'' \<notin> set file_hash"
  shows "take 2 file_hash \<noteq> []" and "hd (take 2 file_hash) \<noteq> CHR ''/''"
    and "last (take 2 file_hash) \<noteq> CHR ''/''" and "hd file_hash \<noteq> CHR ''/''"
proof -
  show n: "take 2 file_hash \<noteq> []"
    using assms(1) by simp
  have "hd (take 2 file_hash) \<in> set file_hash"
    using n by (meson in_set_takeD hd_in_set)
  then show "hd (take 2 file_hash) \<noteq> CHR ''/''"
    using assms(2) by metis
  have "last (take 2 file_hash) \<in> set file_hash"
    using n by (meson in_set_takeD last_in_set)
  then show "last (take 2 file_hash) \<noteq> CHR ''/''"
    using assms(2) by metis
  have "hd file_hash \<in> set file_hash"
    using assms(1) by simp
  then show "hd file_hash \<noteq> CHR ''/''"
    using assms(2) by metis
qed

lemma img_dir_layout:
  assumes cat: "image_type = ''covers'' \<or> image_type = ''avatars''"
    and hash: "file_hash \<noteq> []" "CHR ''/'' \<notin> set file_hash"
  shows "img_dir base image_type file_hash = os_path_join base (layout_dir image_type file_hash)"
proof -
  note seg = hash_segment [OF hash]
  have "os_path_join (os_path_join base image_type) (take 2 file_hash) =
      os_path_join base (image_type @ ''/'' @ take 2 file_hash)"
    using cat seg(1,2) by (intro os_path_join_nested) auto
  then show ?thesis
    by (simp add: img_dir_def layout_dir_def)
qed

lemma img_path_layout:
  assumes cat: "image_type = ''covers'' \<or> image_type = ''avatars''"
    and hash: "file_hash \<noteq> []" "CHR ''/'' \<notin> set file_hash"
  shows "img_path base image_type file_hash ext =
     os_path_join base (layout_file image_type file_hash ext)"
proof -
  note seg = hash_segment [OF hash]
  have d: "img_dir base image_type file_hash = os_path_join base (layout_dir image_type file_hash)"
    using assms by (rule img_dir_layout)
  have n: "layout_dir image_type file_hash \<noteq> []"
    using cat by (auto simp: layout_dir_def)
  have h: "hd (layout_dir image_type file_hash) \<noteq> CHR ''/''"
    using cat by (auto simp: layout_dir_def)
  have l: "last (layout_dir image_type file_hash) \<noteq> CHR ''/''"
    using seg(1,3) by (simp add: layout_dir_def)
  have "os_path_join (os_path_join base (layout_dir image_type file_hash)) (file_hash @ ext) =
      os_path_join base (layout_dir image_type file_hash @ ''/'' @ file_hash @ ext)"
    using n h l hash(1) seg(4) by (intro os_path_join_nested) simp_all
  then show ?thesis
    by (simp add: img_path_def d layout_file_def layout_dir_def)
qed

lemma layout_below_base:
  assumes cat: "image_type = ''covers'' \<or> image_type = ''avatars''"
    and base: "base \<noteq> []" "last base \<noteq> CHR ''/''"
  shows "os_path_join base (layout_dir image_type file_hash) =
       base @ ''/'' @ image_type @ ''/'' @ take 2 file_hash"
    and "os_path_join base (layout_file image_type file_hash ext) =
       base @ ''/'' @ image_type @ ''/'' @ take 2 file_hash @ ''/'' @ file_hash @ ext"
  using assms by (auto simp: os_path_join_def layout_dir_def layout_file_def)

lemma media_type_spec:
  "ext \<in> set extensions \<Longrightarrow> media_type ext = spec_content_type ext"
  by (auto simp: extensions_def media_type_def spec_content_type_def)

lemma clear_all_images_failed:
  "\<exists>step \<in> set steps. \<not> snd step \<Longrightarrow> clear_all_images steps = False"
  by (induction steps rule: clear_all_images.induct) auto

section \<open>The claims\<close>

subsection \<open>C1: the probed paths follow the two-level layout\<close>

text \<open>
  Claim C1. For a category in \<open>{covers, avatars}\<close> and every \<open>file_hash\<close> the route
  can carry (its path parameter is one segment of the URL: not empty, no slash), the
  handler tests exactly the directory \<open><category>/<hash[0:2]>\<close> and then files
  \<open><category>/<hash[0:2]>/<hash><ext>\<close> of the layout rule, placed below the images base
  that \<open>get_output_path\<close> returned, and a file it serves is one of these. For a base that
  is not empty and does not end in a slash, these are the strings
  \<open><base>/<category>/<hash[0:2]>\<close> and \<open><base>/<category>/<hash[0:2]>/<hash><ext>\<close>.
\<close>

theorem get_local_image_layout:
  assumes "image_type = ''covers'' \<or> image_type = ''avatars''"
    and "get_output_path e ''images'' = Inr base"
    and "file_hash \<noteq> []" and "CHR ''/'' \<notin> set file_hash"
  shows "get_local_image e image_type file_hash =
       (if \<not> os_path_exists e (os_path_join base (layout_dir image_type file_hash))
        then (Inl (HTTPException 404 (Image_not_found file_hash)),
              [Get_output_path ''images'',
               Os_path_exists (os_path_join base (layout_dir image_type file_hash))])
        else
          (case find (\<lambda>ext. os_path_exists e
                    (os_path_join base (layout_file image_type file_hash ext))) extensions of
             None \<Rightarrow> Inl (HTTPException 404 (Image_not_found file_hash))
           | Some ext \<Rightarrow>
               Inr (FileResponse (os_path_join base (layout_file image_type file_hash ext))
                      (media_type ext)),
           [Get_output_path ''images'',
            Os_path_exists (os_path_join base (layout_dir image_type file_hash))] @
           map (\<lambda>ext. Os_path_exists (os_path_join base (layout_file image_type file_hash ext)))
             (tried (\<lambda>ext. os_path_exists e
                       (os_path_join base (layout_file image_type file_hash ext))) extensions)))
     \<and> (base \<noteq> [] \<and> last base \<noteq> CHR ''/'' \<longrightarrow>
          os_path_join base (layout_dir image_type file_hash) =
            base @ ''/'' @ image_type @ ''/'' @ take 2 file_hash
          \<and> (\<forall>ext. os_path_join base (layout_file image_type file_hash ext) =
                 base @ ''/'' @ image_type @ ''/'' @ take 2 file_hash @ ''/'' @ file_hash @ ext))"
proof (intro conjI impI allI)
  have d: "img_dir base image_type file_hash =
      os_path_join base (layout_dir image_type file_hash)"
    using assms(1,3,4) by (rule img_dir_layout)
  have p: "img_path base image_type file_hash =
      (\<lambda>ext. os_path_join base (layout_file image_type file_hash ext))"
    using assms(1,3,4) by (intro ext img_path_layout)
  show "get_local_image e image_type file_hash =
       (if \<not> os_path_exists e (os_path_join base (layout_dir image_type file_hash))
        then (Inl (HTTPException 404 (Image_not_found file_hash)),
              [Get_output_path ''images'',
               Os_path_exists (os_path_join base (layout_dir image_type file_hash))])
        else
          (case find (\<lambda>ext. os_path_exists e
                    (os_path_join base (layout_file image_type file_hash ext))) extensions of
             None \<Rightarrow> Inl (HTTPException 404 (Image_not_found file_hash))
           | Some ext \<Rightarrow>
               Inr (FileResponse (os_path_join base (layout_file image_type file_hash ext))
                      (media_type ext)),
           [Get_output_path ''images'',
            Os_path_exists (os_path_join base (layout_dir image_type file_hash))] @
           map (\<lambda>ext. Os_path_exists (os_path_join base (layout_file image_type file_hash ext)))
             (tried (\<lambda>ext. os_path_exists e
                       (os_path_join base (layout_file image_type file_hash ext))) extensions)))"
    using get_local_image_lookup [OF assms(1,2), of file_hash]
    unfolding d p .
next
  assume "base \<noteq> [] \<and> last base \<noteq> CHR ''/''"
  then show "os_path_join base (layout_dir image_type file_hash) =
      base @ ''/'' @ image_type @ ''/'' @ take 2 file_hash"
    using layout_below_base(1) [OF assms(1)] by blast
next
  fix ext
  assume "base \<noteq> [] \<and> last base \<noteq> CHR ''/''"
  then show "os_path_join base (layout_file image_type file_hash ext) =
      base @ ''/'' @ image_type @ ''/'' @ take 2 file_hash @ ''/'' @ file_hash @ ext"
    using layout_below_base(2) [OF assms(1)] by blast
qed

theorem get_local_image_layout_witness:
  "get_local_image (env_of (Inr ''output/images'')
       [''output/images/covers/3f'', ''output/images/covers/3f/3fa9c2.png''])
     ''covers'' ''3fa9c2'' =
   (Inr (FileResponse ''output/images/covers/3f/3fa9c2.png'' ''image/png''),
    [Get_output_path ''images'',
     Os_path_exists ''output/images/covers/3f'',
     Os_path_exists ''output/images/covers/3f/3fa9c2.jpg'',
     Os_path_exists ''output/images/covers/3f/3fa9c2.jpeg'',
     Os_path_exists ''output/images/covers/3f/3fa9c2.png''])
   \<and> os_path_join ''output/images'' (layout_file ''covers'' ''3fa9c2'' ''.png'') =
       ''output/images/covers/3f/3fa9c2.png''"
  using get_local_image_layout
    [of "''covers''" "env_of (Inr ''output/images'')
       [''output/images/covers/3f'', ''output/images/covers/3f/3fa9c2.png'']"
       "''output/images''" "''3fa9c2''"]
  by (simp add: env_of_def layout_dir_def layout_file_def os_path_join_def extensions_def
      tried_def media_type_def)

subsection \<open>C2: the extensions are tried in a fixed order, the first match is served\<close>

text \<open>
  Claim C2. For a valid category and every hash, once the directory is there the handler
  tries \<open>.jpg\<close>, \<open>.jpeg\<close>, \<open>.png\<close>, \<open>.webp\<close>, \<open>.gif\<close> in this order, stops at the first
  extension whose file exists and serves that file; when several such files exist, the
  earliest in the list wins. (\<open>find\<close> returns the first element of the list that meets
  the test; \<open>tried\<close> are the extensions up to and including it.)
\<close>

theorem get_local_image_first_match:
  assumes "image_type = ''covers'' \<or> image_type = ''avatars''"
    and "get_output_path e ''images'' = Inr base"
  shows "fst (get_local_image e image_type file_hash) =
       (if os_path_exists e (img_dir base image_type file_hash)
        then
          (case find (\<lambda>ext. os_path_exists e (img_path base image_type file_hash ext))
                  [''.jpg'', ''.jpeg'', ''.png'', ''.webp'', ''.gif''] of
             None \<Rightarrow> Inl (HTTPException 404 (Image_not_found file_hash))
           | Some ext \<Rightarrow>
               Inr (FileResponse (img_path base image_type file_hash ext) (media_type ext)))
        else Inl (HTTPException 404 (Image_not_found file_hash)))
     \<and> snd (get_local_image e image_type file_hash) =
       [Get_output_path ''images'', Os_path_exists (img_dir base image_type file_hash)] @
       (if os_path_exists e (img_dir base image_type file_hash)
        then
          map (\<lambda>ext. Os_path_exists (img_path base image_type file_hash ext))
            (tried (\<lambda>ext. os_path_exists e (img_path base image_type file_hash ext))
               [''.jpg'', ''.jpeg'', ''.png'', ''.webp'', ''.gif''])
        else [])"
  using get_local_image_lookup [OF assms, of file_hash]
  by (simp add: extensions_def)

theorem get_local_image_first_match_witness:
  "get_local_image (env_of (Inr ''output/images'')
       [''output/images/avatars/ab'', ''output/images/avatars/ab/abcd.gif'',
        ''output/images/avatars/ab/abcd.png'', ''output/images/avatars/ab/abcd.jpeg''])
     ''avatars'' ''abcd'' =
   (Inr (FileResponse ''output/images/avatars/ab/abcd.jpeg'' ''image/jpeg''),
    [Get_output_path ''images'',
     Os_path_exists ''output/images/avatars/ab'',
     Os_path_exists ''output/images/avatars/ab/abcd.jpg'',
     Os_path_exists ''output/images/avatars/ab/abcd.jpeg''])"
  using get_local_image_first_match
    [of "''avatars''" "env_of (Inr ''output/images'')
       [''output/images/avatars/ab'', ''output/images/avatars/ab/abcd.gif'',
        ''output/images/avatars/ab/abcd.png'', ''output/images/avatars/ab/abcd.jpeg'']"
       "''output/images''" "''abcd''"]
  by (simp add: env_of_def img_dir_def img_path_def os_path_join_def tried_def media_type_def
      prod_eq_iff)

subsection \<open>C3: an invalid category is refused before any file system access\<close>

text \<open>
  Claim C3. For every \<open>image_type\<close> other than \<open>covers\<close> and \<open>avatars\<close> and every
  \<open>file_hash\<close>, the handler raises the HTTP exception 400, and the event log is empty:
  neither \<open>get_output_path\<close> nor \<open>os.path.exists\<close> has been called.
\<close>

theorem get_local_image_invalid_category:
  assumes "image_type \<noteq> ''covers''" and "image_type \<noteq> ''avatars''"
  shows "get_local_image e image_type file_hash =
     (Inl (HTTPException 400 (Invalid_image_type image_type)), [])"
  using assms by (simp add: get_local_image_def)

theorem get_local_image_invalid_category_witness:
  "get_local_image (env_of (Inr ''output/images'') [''output/images/badtype/ab'',
       ''output/images/badtype/ab/abc123.jpg'']) ''badtype'' ''abc123'' =
     (Inl (HTTPException 400 (Invalid_image_type ''badtype'')), [])"
  using get_local_image_invalid_category
    [of "''badtype''" "env_of (Inr ''output/images'') [''output/images/badtype/ab'',
       ''output/images/badtype/ab/abc123.jpg'']" "''abc123''"]
  by simp

subsection \<open>C4: not found, and unexpected exceptions\<close>

text \<open>
  Claim C4. For a valid category and every hash: when \<open>get_output_path\<close> returns a base,
  the handler raises the HTTP exception 404 if and only if the directory it tests is
  absent or no file \<open><hash><ext>\<close> exists for any extension of the list, and it returns a
  file response in exactly the other case; when \<open>get_output_path\<close> raises an exception
  that is not an HTTP exception, the handler raises the HTTP exception 500 and returns
  no response.
\<close>

theorem get_local_image_not_found_iff:
  assumes "image_type = ''covers'' \<or> image_type = ''avatars''"
  shows "(get_output_path e ''images'' = Inr base \<longrightarrow>
           (fst (get_local_image e image_type file_hash) =
              Inl (HTTPException 404 (Image_not_found file_hash))
            \<longleftrightarrow> \<not> os_path_exists e (img_dir base image_type file_hash)
              \<or> (\<forall>ext \<in> set extensions.
                    \<not> os_path_exists e (img_path base image_type file_hash ext)))
         \<and> ((\<exists>r. fst (get_local_image e image_type file_hash) = Inr r)
            \<longleftrightarrow> os_path_exists e (img_dir base image_type file_hash)
              \<and> (\<exists>ext \<in> set extensions.
                    os_path_exists e (img_path base image_type file_hash ext))))
     \<and> (get_output_path e ''images'' = Inl (Exception s) \<longrightarrow>
           get_local_image e image_type file_hash =
             (Inl (HTTPException 500 (Get_image_failed s)), [Get_output_path ''images'']))"
proof (intro conjI impI)
  assume base: "get_output_path e ''images'' = Inr base"
  let ?P = "\<lambda>ext. os_path_exists e (img_path base image_type file_hash ext)"
  have none: "find ?P extensions = None \<longleftrightarrow> (\<forall>ext \<in> set extensions. \<not> ?P ext)"
    by (auto simp: find_None_iff)
  have some: "\<And>x. find ?P extensions = Some x \<Longrightarrow> \<exists>ext \<in> set extensions. ?P ext"
    by (auto simp: find_Some_iff)
  show "fst (get_local_image e image_type file_hash) =
          Inl (HTTPException 404 (Image_not_found file_hash))
        \<longleftrightarrow> \<not> os_path_exists e (img_dir base image_type file_hash)
          \<or> (\<forall>ext \<in> set extensions. \<not> ?P ext)"
    using get_local_image_lookup [OF assms base, of file_hash] none
    by (auto split: option.splits)
  show "(\<exists>r. fst (get_local_image e image_type file_hash) = Inr r)
        \<longleftrightarrow> os_path_exists e (img_dir base image_type file_hash)
          \<and> (\<exists>ext \<in> set extensions. ?P ext)"
    using get_local_image_lookup [OF assms base, of file_hash] none some
    by (auto split: option.splits)
next
  assume "get_output_path e ''images'' = Inl (Exception s)"
  then show "get_local_image e image_type file_hash =
      (Inl (HTTPException 500 (Get_image_failed s)), [Get_output_path ''images''])"
    using assms by (auto simp: get_local_image_def except_handler_def)
qed

theorem get_local_image_not_found_iff_witness:
  "fst (get_local_image (env_of (Inr ''output/images'') [''output/images/covers/ab''])
          ''covers'' ''abcd'') = Inl (HTTPException 404 (Image_not_found ''abcd''))
   \<and> fst (get_local_image (env_of (Inr ''output/images'') [''output/images/covers/ab/abcd.gif''])
          ''covers'' ''abcd'') = Inl (HTTPException 404 (Image_not_found ''abcd''))
   \<and> (\<exists>r. fst (get_local_image (env_of (Inr ''output/images'')
          [''output/images/covers/ab'', ''output/images/covers/ab/abcd.gif''])
          ''covers'' ''abcd'') = Inr r)
   \<and> get_local_image (env_of (Inl (Exception ''disk error'')) [''output/images/covers/ab'',
          ''output/images/covers/ab/abcd.gif'']) ''covers'' ''abcd'' =
       (Inl (HTTPException 500 (Get_image_failed ''disk error'')), [Get_output_path ''images''])"
proof (intro conjI)
  show "fst (get_local_image (env_of (Inr ''output/images'') [''output/images/covers/ab''])
          ''covers'' ''abcd'') = Inl (HTTPException 404 (Image_not_found ''abcd''))"
    using get_local_image_not_found_iff
      [of "''covers''" "env_of (Inr ''output/images'') [''output/images/covers/ab'']"
          "''output/images''" "''abcd''"]
    by (simp add: env_of_def img_dir_def img_path_def os_path_join_def extensions_def)
  show "fst (get_local_image (env_of (Inr ''output/images'') [''output/images/covers/ab/abcd.gif''])
          ''covers'' ''abcd'') = Inl (HTTPException 404 (Image_not_found ''abcd''))"
    using get_local_image_not_found_iff
      [of "''covers''" "env_of (Inr ''output/images'') [''output/images/covers/ab/abcd.gif'']"
          "''output/images''" "''abcd''"]
    by (simp add: env_of_def img_dir_def img_path_def os_path_join_def extensions_def)
  show "\<exists>r. fst (get_local_image (env_of (Inr ''output/images'')
          [''output/images/covers/ab'', ''output/images/covers/ab/abcd.gif''])
          ''covers'' ''abcd'') = Inr r"
    using get_local_image_not_found_iff
      [of "''covers''" "env_of (Inr ''output/images'')
          [''output/images/covers/ab'', ''output/images/covers/ab/abcd.gif'']"
          "''output/images''" "''abcd''"]
    by (simp add: env_of_def img_dir_def img_path_def os_path_join_def extensions_def)
  show "get_local_image (env_of (Inl (Exception ''disk error'')) [''output/images/covers/ab'',
          ''output/images/covers/ab/abcd.gif'']) ''covers'' ''abcd'' =
       (Inl (HTTPException 500 (Get_image_failed ''disk error'')), [Get_output_path ''images''])"
    using get_local_image_not_found_iff
      [of "''covers''" "env_of (Inl (Exception ''disk error'')) [''output/images/covers/ab'',
          ''output/images/covers/ab/abcd.gif'']" _ "''abcd''" "''disk error''"]
    by (simp add: env_of_def)
qed

subsection \<open>C5: the content type follows the extension\<close>

text \<open>
  Claim C5. Whenever the handler returns a file response, the served path ends in the
  hash followed by an extension of the list, and the media type is the one the spec gives
  for that extension: \<open>image/jpeg\<close> for \<open>.jpg\<close> and \<open>.jpeg\<close>, \<open>image/png\<close>,
  \<open>image/webp\<close> and \<open>image/gif\<close> for the other three.
\<close>

theorem get_local_image_content_type:
  assumes "fst (get_local_image e image_type file_hash) = Inr (FileResponse p m)"
  shows "(\<exists>ext \<in> set extensions. (\<exists>dir. p = dir @ file_hash @ ext) \<and> m = spec_content_type ext)
     \<and> map spec_content_type [''.jpg'', ''.jpeg'', ''.png'', ''.webp'', ''.gif''] =
         [''image/jpeg'', ''image/jpeg'', ''image/png'', ''image/webp'', ''image/gif'']"
proof
  have cat: "image_type = ''covers'' \<or> image_type = ''avatars''"
    using assms by (auto simp: get_local_image_def split: if_splits)
  obtain base where base: "get_output_path e ''images'' = Inr base"
    using assms cat by (cases "get_output_path e ''images''") (auto simp: get_local_image_def)
  let ?P = "\<lambda>ext. os_path_exists e (img_path base image_type file_hash ext)"
  obtain ext where f: "find ?P extensions = Some ext"
    and p: "p = img_path base image_type file_hash ext" and m: "m = media_type ext"
    using assms get_local_image_lookup [OF cat base, of file_hash]
    by (auto split: if_splits option.splits)
  have mem: "ext \<in> set extensions"
    using f by (auto simp: find_Some_iff)
  obtain dir where "p = dir @ file_hash @ ext"
    using os_path_join_ends [of "img_dir base image_type file_hash" "file_hash @ ext"]
    by (auto simp: p img_path_def)
  then show "\<exists>ext \<in> set extensions. (\<exists>dir. p = dir @ file_hash @ ext) \<and> m = spec_content_type ext"
    using mem m media_type_spec by blast
  show "map spec_content_type [''.jpg'', ''.jpeg'', ''.png'', ''.webp'', ''.gif''] =
         [''image/jpeg'', ''image/jpeg'', ''image/png'', ''image/webp'', ''image/gif'']"
    by (simp add: spec_content_type_def)
qed

theorem get_local_image_content_type_witness:
  "fst (get_local_image (env_of (Inr ''output/images'')
          [''output/images/covers/ab'', ''output/images/covers/ab/abcd.webp''])
          ''covers'' ''abcd'') =
     Inr (FileResponse ''output/images/covers/ab/abcd.webp'' ''image/webp'')
   \<and> (\<exists>ext \<in> set extensions. (\<exists>dir. ''output/images/covers/ab/abcd.webp'' = dir @ ''abcd'' @ ext)
        \<and> ''image/webp'' = spec_content_type ext)"
proof -
  have r: "fst (get_local_image (env_of (Inr ''output/images'')
          [''output/images/covers/ab'', ''output/images/covers/ab/abcd.webp''])
          ''covers'' ''abcd'') =
     Inr (FileResponse ''output/images/covers/ab/abcd.webp'' ''image/webp'')"
    by (simp add: get_local_image_def env_of_def os_path_join_def extensions_def media_type_def
        Let_def)
  show ?thesis
    using r get_local_image_content_type [OF r] by simp
qed

subsection \<open>C6: what /clear answers\<close>

text \<open>
  Claim C6. When \<open>clear_all_images()\<close> returns true, the answer has status \<open>success\<close>
  and lists the four directories (covers, avatars, orphaned covers, orphaned avatars) and
  the name of the status file; when it returns false, the answer has status \<open>error\<close>.
\<close>

theorem clear_images_outcome:
  "clear_images (Inr True) =
     Inr [(''status'', Str ''success''),
          (''message'', Text Cleared_all),
          (''data'', Dict
             [(''cleared_paths'', List
                 [Str ''output/images/covers'',
                  Str ''output/images/avatars'',
                  Str ''output/images/orphaned_covers'',
                  Str ''output/images/orphaned_avatars'']),
              (''status_file'', Str ''output/download_status.json'')])]
   \<and> clear_images (Inr False) =
     Inr [(''status'', Str ''error''), (''message'', Text Clear_failed)]"
  by (simp add: clear_images_def)

subsection \<open>C7: a partial failure of the clearing\<close>

text \<open>
  Claim C7, as amended. When some deletion step of \<open>clear_all_images()\<close> fails, whichever
  and however many, the answer of /clear is the one undifferentiated failure: status
  \<open>error\<close> with the fixed message, and no list of paths. It does not claim success.
\<close>

theorem clear_images_partial_failure:
  assumes "\<exists>step \<in> set steps. \<not> snd step"
  shows "clear_images (Inr (clear_all_images steps)) =
     Inr [(''status'', Str ''error''), (''message'', Text Clear_failed)]"
  using clear_all_images_failed [OF assms] by (simp add: clear_images_def)

theorem clear_images_partial_failure_witness:
  "clear_images (Inr (clear_all_images
       [(''output/images/covers'', True), (''output/images/avatars'', False),
        (''output/images/orphaned_covers'', True), (''output/images/orphaned_avatars'', True)])) =
     Inr [(''status'', Str ''error''), (''message'', Text Clear_failed)]"
  using clear_images_partial_failure
    [of "[(''output/images/covers'', True), (''output/images/avatars'', False),
        (''output/images/orphaned_covers'', True), (''output/images/orphaned_avatars'', True)]"]
  by simp

text \<open>
  The claim as stated asks for an answer that tells what was cleared and what was not.
  With the covers cleared and the avatars not, the answer names no path at all, and it is
  the answer given when nothing was cleared.
\<close>

theorem clear_images_partial_failure_counterexample:
  "clear_images (Inr (clear_all_images
       [(''output/images/covers'', True), (''output/images/avatars'', False),
        (''output/images/orphaned_covers'', True), (''output/images/orphaned_avatars'', True)])) =
     Inr [(''status'', Str ''error''), (''message'', Text Clear_failed)]
   \<and> clear_images (Inr (clear_all_images
       [(''output/images/covers'', True), (''output/images/avatars'', False),
        (''output/images/orphaned_covers'', True), (''output/images/orphaned_avatars'', True)])) =
     clear_images (Inr (clear_all_images
       [(''output/images/covers'', False), (''output/images/avatars'', False),
        (''output/images/orphaned_covers'', False), (''output/images/orphaned_avatars'', False)]))"
  by (simp add: clear_images_def)

subsection \<open>C8: /start acknowledges at once\<close>

text \<open>
  Claim C8. For every \<open>year\<close>, given or omitted, and whatever the download will do when
  it runs, the handler appends the task \<open>downloader.start_download(year)\<close> to the
  background tasks without calling it, and answers with status \<open>success\<close>.
\<close>

theorem start_download_acknowledged:
  "start_download downloader_start_download background_tasks year =
     ([(''status'', Str ''success''),
       (''message'', Text (case year of None \<Rightarrow> Start_all_years | Some y \<Rightarrow> Start_year y))],
      background_tasks @ [Task downloader_start_download year])
   \<and> map_of (fst (start_download downloader_start_download background_tasks year)) ''status'' =
       Some (Str ''success'')"
  by (simp add: start_download_def add_task_def)

subsection \<open>C9: hashes shorter than two characters\<close>

text \<open>
  Claim C9, as amended. For a \<open>file_hash\<close> of length 0 or 1 the slice is the whole hash:
  the directory tested is the join of the category directory and the hash itself. The
  lookup then goes on as for any hash and raises nothing but the 404: it ends in
  not-found when the directory is absent or no file \<open><hash><ext>\<close> exists in it, and
  otherwise serves the file of the first extension that matches.
\<close>

theorem get_local_image_short_hash:
  assumes "image_type = ''covers'' \<or> image_type = ''avatars''"
    and "get_output_path e ''images'' = Inr base"
    and "length file_hash < 2"
  shows "get_local_image e image_type file_hash =
       (if \<not> os_path_exists e (os_path_join (os_path_join base image_type) file_hash)
        then (Inl (HTTPException 404 (Image_not_found file_hash)),
              [Get_output_path ''images'',
               Os_path_exists (os_path_join (os_path_join base image_type) file_hash)])
        else
          (case find (\<lambda>ext. os_path_exists e
                    (os_path_join (os_path_join (os_path_join base image_type) file_hash)
                       (file_hash @ ext)))
                  [''.jpg'', ''.jpeg'', ''.png'', ''.webp'', ''.gif''] of
             None \<Rightarrow> Inl (HTTPException 404 (Image_not_found file_hash))
           | Some ext \<Rightarrow>
               Inr (FileResponse
                      (os_path_join (os_path_join (os_path_join base image_type) file_hash)
                         (file_hash @ ext))
                      (media_type ext)),
           [Get_output_path ''images'',
            Os_path_exists (os_path_join (os_path_join base image_type) file_hash)] @
           map (\<lambda>ext. Os_path_exists
                  (os_path_join (os_path_join (os_path_join base image_type) file_hash)
                     (file_hash @ ext)))
             (tried (\<lambda>ext. os_path_exists e
                       (os_path_join (os_path_join (os_path_join base image_type) file_hash)
                          (file_hash @ ext)))
                [''.jpg'', ''.jpeg'', ''.png'', ''.webp'', ''.gif''])))"
proof -
  have d: "img_dir base image_type file_hash =
      os_path_join (os_path_join base image_type) file_hash"
    using assms(3) by (simp add: img_dir_def)
  show ?thesis
    using get_local_image_lookup [OF assms(1,2), of file_hash]
    unfolding img_path_def d extensions_def .
qed

theorem get_local_image_short_hash_witness:
  "get_local_image (env_of (Inr ''output/images'') [''output/images/covers/''])
       ''covers'' '''' =
     (Inl (HTTPException 404 (Image_not_found '''')),
      [Get_output_path ''images'', Os_path_exists ''output/images/covers/'',
       Os_path_exists ''output/images/covers/.jpg'', Os_path_exists ''output/images/covers/.jpeg'',
       Os_path_exists ''output/images/covers/.png'', Os_path_exists ''output/images/covers/.webp'',
       Os_path_exists ''output/images/covers/.gif''])
   \<and> get_local_image (env_of (Inr ''output/images'') [''output/images/avatars/b''])
       ''avatars'' ''a'' =
     (Inl (HTTPException 404 (Image_not_found ''a'')),
      [Get_output_path ''images'', Os_path_exists ''output/images/avatars/a''])
   \<and> get_local_image (env_of (Inr ''output/images'')
         [''output/images/avatars/b'', ''output/images/avatars/b/b.gif'',
          ''output/images/avatars/b/b.png''])
       ''avatars'' ''b'' =
     (Inr (FileResponse ''output/images/avatars/b/b.png'' ''image/png''),
      [Get_output_path ''images'', Os_path_exists ''output/images/avatars/b'',
       Os_path_exists ''output/images/avatars/b/b.jpg'',
       Os_path_exists ''output/images/avatars/b/b.jpeg'',
       Os_path_exists ''output/images/avatars/b/b.png''])"
  using get_local_image_short_hash
      [of "''covers''" "env_of (Inr ''output/images'') [''output/images/covers/'']"
          "''output/images''" "''''"]
    get_local_image_short_hash
      [of "''avatars''" "env_of (Inr ''output/images'') [''output/images/avatars/b'']"
          "''output/images''" "''a''"]
    get_local_image_short_hash
      [of "''avatars''" "env_of (Inr ''output/images'')
         [''output/images/avatars/b'', ''output/images/avatars/b/b.gif'',
          ''output/images/avatars/b/b.png'']"
          "''output/images''" "''b''"]
  by (simp add: env_of_def os_path_join_def tried_def media_type_def)

text \<open>
  The claim as stated sends every short hash to not-found. With a file \<open>a.jpg\<close> in
  the directory \<open>covers/a\<close>, the hash \<open>a\<close> is served.
\<close>

theorem get_local_image_short_hash_counterexample:
  "get_local_image (env_of (Inr ''output/images'')
       [''output/images/covers/a'', ''output/images/covers/a/a.jpg'']) ''covers'' ''a'' =
     (Inr (FileResponse ''output/images/covers/a/a.jpg'' ''image/jpeg''),
      [Get_output_path ''images'', Os_path_exists ''output/images/covers/a'',
       Os_path_exists ''output/images/covers/a/a.jpg''])"
  by (simp add: get_local_image_def env_of_def os_path_join_def extensions_def media_type_def
      except_handler_def Let_def)

subsection \<open>C10: /clear never raises\<close>

text \<open>
  Claim C10. Whatever \<open>clear_all_images()\<close> does (returns true, returns false, raises),
  the handler returns a dictionary whose \<open>status\<close> is \<open>success\<close> or \<open>error\<close>.
\<close>

theorem clear_images_never_raises:
  "\<exists>d. clear_images clear_all_images_outcome = Inr d
     \<and> (map_of d ''status'' = Some (Str ''success'') \<or> map_of d ''status'' = Some (Str ''error''))"
  by (auto simp: clear_images_def split: sum.splits)

end
